theory Spec2Isabelle
  imports Main "HOL-Library.Word"
begin

unbundle bit_operations_syntax

section \<open>Python values\<close>

text \<open>
  The program is one Python function, \<open>create_function\<close>, whose inner coroutine
  \<open>handler\<close> walks over the messages of an event. Python objects that travel through it
  are modelled by the datatype below. A \<open>str\<close> is represented by the bytes of its UTF-8
  encoding (one \<open>char\<close> per byte), so \<open>bytes(s, encoding='utf-8')\<close> only changes the
  type. A \<open>float\<close> is carried as the text \<open>json.dumps\<close> prints for it, and \<open>PObj c\<close>
  is an object of some other class \<open>c\<close> (a set, a coroutine, a user class) that the JSON
  encoder does not know.
\<close>

type_synonym byte = "8 word"

datatype pyval =
    PNone
  | PBool bool
  | PInt int
  | PFloat string
  | PStr string
  | PBytes "byte list"
  | PList "pyval list"
  | PDict "(pyval \<times> pyval) list"
  | PObj string

section \<open>The base64 codec of the standard library\<close>

text \<open>
  \<open>base64.b64encode\<close> and \<open>base64.b64decode\<close> (with the default \<open>validate=False\<close>)
  are thin wrappers around \<open>binascii.b2a_base64\<close> and \<open>binascii.a2b_base64\<close>. The
  encoder follows RFC 4648 with padding. The decoder is the lenient one of CPython: a byte
  outside the alphabet is skipped, a pad byte before the second position of a quad is
  skipped, a pad that completes a quad ends the input, and an incomplete quad at the end
  raises \<open>binascii.Error\<close>.
\<close>

definition table_b2a_base64 :: string where
  "table_b2a_base64 = ''ABCDEFGHIJKLMNOPQRSTUVWXYZabcdefghijklmnopqrstuvwxyz0123456789+/''"

definition BASE64_PAD :: char where
  "BASE64_PAD = CHR ''=''"

definition b2a_char :: "byte \<Rightarrow> char" where
  "b2a_char v = table_b2a_base64 ! unat v"

fun b2a_base64 :: "byte list \<Rightarrow> string" where
  "b2a_base64 [] = []"
| "b2a_base64 [a] =
     [b2a_char (drop_bit 2 a), b2a_char (push_bit 4 (a AND 3)), BASE64_PAD, BASE64_PAD]"
| "b2a_base64 [a, b] =
     [b2a_char (drop_bit 2 a), b2a_char (push_bit 4 (a AND 3) OR drop_bit 4 b),
      b2a_char (push_bit 2 (b AND 15)), BASE64_PAD]"
| "b2a_base64 (a # b # c # rest) =
     [b2a_char (drop_bit 2 a), b2a_char (push_bit 4 (a AND 3) OR drop_bit 4 b),
      b2a_char (push_bit 2 (b AND 15) OR drop_bit 6 c), b2a_char (c AND 63)]
     @ b2a_base64 rest"

definition b64encode :: "byte list \<Rightarrow> string" where
  "b64encode s = b2a_base64 s"

definition table_a2b_base64 :: "byte \<Rightarrow> byte option" where
  "table_a2b_base64 c =
     map_of (zip (map of_char table_b2a_base64) (map of_nat [0..<64])) c"

definition digit_char :: "nat \<Rightarrow> char" where
  "digit_char d = ''0123456789'' ! d"

fun show_nat :: "nat \<Rightarrow> string" where
  "show_nat n = (if n < 10 then [digit_char n] else show_nat (n div 10) @ [digit_char (n mod 10)])"

declare show_nat.simps [simp del]

text \<open>
  The loop of \<open>a2b_base64\<close> in non-strict mode, with its local variables \<open>quad_pos\<close>,
  \<open>leftchar\<close> and \<open>pads\<close> as arguments and the output written so far in \<open>bin\<close>.
\<close>

fun a2b_loop :: "nat \<Rightarrow> byte \<Rightarrow> nat \<Rightarrow> byte list \<Rightarrow> byte list \<Rightarrow> string + byte list" where
  "a2b_loop quad_pos leftchar pads bin [] =
     (if quad_pos \<noteq> 0 then
        (if quad_pos = 1 then
           Inl (''Invalid base64-encoded string: number of data characters (''
                @ show_nat (length bin div 3 * 4 + 1)
                @ '') cannot be 1 more than a multiple of 4'')
         else Inl ''Incorrect padding'')
      else Inr bin)"
| "a2b_loop quad_pos leftchar pads bin (this_ch # rest) =
     (if this_ch = of_char BASE64_PAD then
        (if quad_pos \<ge> 2 then
           (if quad_pos + (pads + 1) \<ge> 4 then Inr bin
            else a2b_loop quad_pos leftchar (pads + 1) bin rest)
         else a2b_loop quad_pos leftchar pads bin rest)
      else
        (case table_a2b_base64 this_ch of
           None \<Rightarrow> a2b_loop quad_pos leftchar pads bin rest
         | Some v \<Rightarrow>
            (if quad_pos = 0 then a2b_loop 1 v 0 bin rest
             else if quad_pos = 1 then
               a2b_loop 2 (v AND 15) 0 (bin @ [push_bit 2 leftchar OR drop_bit 4 v]) rest
             else if quad_pos = 2 then
               a2b_loop 3 (v AND 3) 0 (bin @ [push_bit 4 leftchar OR drop_bit 2 v]) rest
             else a2b_loop 0 0 0 (bin @ [push_bit 6 leftchar OR v]) rest)))"

definition a2b_base64 :: "byte list \<Rightarrow> string + byte list" where
  "a2b_base64 data = a2b_loop 0 0 0 [] data"

definition b64decode :: "byte list \<Rightarrow> string + byte list" where
  "b64decode s = a2b_base64 s"

section \<open>The JSON encoder\<close>

text \<open>
  \<open>json.dumps(processed_events, cls=EncodeBase64)\<close> walks the object and either builds
  a JSON document or raises \<open>TypeError\<close>. The document is kept as a tree: printing it
  (with the default \<open>ensure_ascii=True\<close>) and encoding the ASCII text as UTF-8 cannot
  fail, so \<open>.encode('utf-8')\<close> adds nothing to the outcome. A raised exception is the
  text \<open>str(e)\<close> of it, on the left of a sum.
\<close>

datatype json =
    JNull
  | JBool bool
  | JInt int
  | JFloat string
  | JString string
  | JArray "json list"
  | JObject "(string \<times> json) list"

definition show_int :: "int \<Rightarrow> string" where
  "show_int i = (if i < 0 then CHR ''-'' # show_nat (nat (- i)) else show_nat (nat i))"

fun class_name :: "pyval \<Rightarrow> string" where
  "class_name PNone = ''NoneType''"
| "class_name (PBool b) = ''bool''"
| "class_name (PInt i) = ''int''"
| "class_name (PFloat r) = ''float''"
| "class_name (PStr s) = ''str''"
| "class_name (PBytes b) = ''bytes''"
| "class_name (PList xs) = ''list''"
| "class_name (PDict kvs) = ''dict''"
| "class_name (PObj c) = c"

fun dict_key :: "pyval \<Rightarrow> string + string" where
  "dict_key (PStr s) = Inr s"
| "dict_key (PFloat r) = Inr r"
| "dict_key (PBool b) = Inr (if b then ''true'' else ''false'')"
| "dict_key PNone = Inr ''null''"
| "dict_key (PInt i) = Inr (show_int i)"
| "dict_key k = Inl (''keys must be str, int, float, bool or None, not '' @ class_name k)"

text \<open>
  \<open>EncodeBase64.default\<close> turns \<open>bytes\<close> into their base64 text and leaves every other
  unknown object to \<open>json.JSONEncoder.default\<close>, which raises.
\<close>

fun iterencode :: "pyval \<Rightarrow> string + json"
  and iterencode_list :: "pyval list \<Rightarrow> string + json list"
  and iterencode_dict :: "(pyval \<times> pyval) list \<Rightarrow> string + (string \<times> json) list" where
  "iterencode PNone = Inr JNull"
| "iterencode (PBool b) = Inr (JBool b)"
| "iterencode (PInt i) = Inr (JInt i)"
| "iterencode (PFloat r) = Inr (JFloat r)"
| "iterencode (PStr s) = Inr (JString s)"
| "iterencode (PList xs) =
     (case iterencode_list xs of Inl e \<Rightarrow> Inl e | Inr js \<Rightarrow> Inr (JArray js))"
| "iterencode (PDict kvs) =
     (case iterencode_dict kvs of Inl e \<Rightarrow> Inl e | Inr fs \<Rightarrow> Inr (JObject fs))"
| "iterencode (PBytes b) = Inr (JString (b64encode b))"
| "iterencode (PObj c) = Inl (''Object of type '' @ c @ '' is not JSON serializable'')"
| "iterencode_list [] = Inr []"
| "iterencode_list (x # xs) =
     (case iterencode x of
        Inl e \<Rightarrow> Inl e
      | Inr j \<Rightarrow> (case iterencode_list xs of Inl e \<Rightarrow> Inl e | Inr js \<Rightarrow> Inr (j # js)))"
| "iterencode_dict [] = Inr []"
| "iterencode_dict ((k, v) # kvs) =
     (case dict_key k of
        Inl e \<Rightarrow> Inl e
      | Inr name \<Rightarrow>
         (case iterencode v of
            Inl e \<Rightarrow> Inl e
          | Inr j \<Rightarrow>
             (case iterencode_dict kvs of Inl e \<Rightarrow> Inl e | Inr fs \<Rightarrow> Inr ((name, j) # fs))))"

definition json_dumps :: "pyval \<Rightarrow> string + json" where
  "json_dumps obj = iterencode obj"

fun json_get :: "string \<Rightarrow> json \<Rightarrow> json option" where
  "json_get name (JObject fs) = map_of fs name"
| "json_get name j = None"

section \<open>Events, messages and the event handler\<close>

text \<open>
  An event is the dict the platform passes in. Its two keys may be missing, which is what
  \<open>None\<close> stands for; a message is a dict with the keys \<open>headers\<close> (a dict from strings
  to strings) and \<open>payload\<close> (a string), as the docstring of \<open>create_function\<close> lays
  out. A dict from strings to strings is kept as the list of its items.
\<close>

type_synonym str_dict = "(string \<times> string) list"

record message =
  headers :: str_dict
  payload :: string

record event =
  ev_messages :: "message list option"
  ev_inputs :: "str_dict option"

definition py_dict :: "str_dict \<Rightarrow> pyval" where
  "py_dict d = PDict (map (\<lambda>(k, v). (PStr k, PStr v)) d)"

text \<open>
  The user's \<open>event_handler\<close> is a parameter of the program. What the model needs of it is
  the outcome of the statement
  \<open>processed_message, processed_headers = event_handler(payload, headers, inputs)\<close>:
  either some \<open>Exception\<close> \<open>e\<close> is raised (by the call, or by unpacking something that is
  not a pair), recorded as \<open>str(e)\<close>, or two objects are bound. The handler is taken to be
  a function of its three arguments that leaves them as they are, and to come back.
\<close>

datatype call_outcome = Raises string | Returns pyval pyval

type_synonym event_handler = "pyval \<Rightarrow> str_dict \<Rightarrow> str_dict \<Rightarrow> call_outcome"

text \<open>
  \<open>asyncio.run\<close> drives the single coroutine \<open>handler\<close>; an \<open>await\<close> inside it blocks
  until the awaited call is complete and then has that call's outcome.
\<close>

definition await :: "call_outcome \<Rightarrow> call_outcome" where
  "await c = c"

text \<open>
  Two functions of the standard library are parameters as well: \<open>str(b, 'utf-8')\<close> and
  \<open>json.loads\<close>. Each returns its value or raises, with \<open>str(e)\<close> on the left.
\<close>

record pylib =
  str_utf8 :: "byte list \<Rightarrow> string + string"
  json_loads :: "string \<Rightarrow> string + pyval"

definition bytes_utf8 :: "string \<Rightarrow> byte list" where
  "bytes_utf8 s = map of_char s"

definition quote :: char where
  "quote = CHR 0x27"

definition repr_str :: "string \<Rightarrow> string" where
  "repr_str s = quote # s @ [quote]"

definition type_repr :: "pyval \<Rightarrow> string" where
  "type_repr v = ''<class '' @ repr_str (class_name v) @ ''>''"

fun isinstance_bytes :: "pyval \<Rightarrow> bool" where
  "isinstance_bytes (PBytes b) = True"
| "isinstance_bytes v = False"

fun isinstance_dict :: "pyval \<Rightarrow> bool" where
  "isinstance_dict (PDict kvs) = True"
| "isinstance_dict v = False"

section \<open>The handler\<close>

text \<open>Lines 86 to 89: the payload handed to the user's function.\<close>

definition decode_payload :: "pylib \<Rightarrow> bool \<Rightarrow> message \<Rightarrow> string + pyval" where
  "decode_payload lib as_json message =
     (case b64decode (bytes_utf8 (payload message)) of
        Inl e \<Rightarrow> Inl e
      | Inr raw \<Rightarrow>
         (if as_json then
            (case str_utf8 lib raw of
               Inl e \<Rightarrow> Inl e
             | Inr text \<Rightarrow> json_loads lib text)
          else Inr (PBytes raw)))"

text \<open>
  Lines 91 to 94: the arguments are evaluated from left to right, so a missing
  \<open>inputs\<close> key raises \<open>KeyError('inputs')\<close> before the user's function is entered.
\<close>

definition call_event_handler ::
  "event_handler \<Rightarrow> bool \<Rightarrow> event \<Rightarrow> message \<Rightarrow> pyval \<Rightarrow> call_outcome" where
  "call_event_handler event_handler use_async event message payload' =
     (case ev_inputs event of
        None \<Rightarrow> Raises (repr_str ''inputs'')
      | Some inputs \<Rightarrow>
         (if use_async then await (event_handler payload' (headers message) inputs)
          else event_handler payload' (headers message) inputs))"

definition err_msg_none :: "pyval \<Rightarrow> pyval \<Rightarrow> string" where
  "err_msg_none processed_message processed_headers =
     ''processed_messages is of type '' @ type_repr processed_message
     @ '' and processed_headers is '' @ type_repr processed_headers
     @ ''. Either both of these should be None or neither''"

definition err_msg_format :: string where
  "err_msg_format =
     ''The returned processed_message or processed_headers were not in the right format. processed_message must be bytes and processed_headers, dict''"

text \<open>
  Lines 96 to 108. The result is \<open>Inr (Some entry)\<close> when \<open>entry\<close> is appended to the
  messages, \<open>Inr None\<close> at \<open>continue\<close>, and \<open>Inl (str e)\<close> when \<open>e\<close> is raised.
\<close>

definition check_result :: "pyval \<Rightarrow> pyval \<Rightarrow> string + pyval option" where
  "check_result processed_message processed_headers =
     (if isinstance_bytes processed_message \<and> isinstance_dict processed_headers then
        Inr (Some (PDict [(PStr ''headers'', processed_headers),
                          (PStr ''payload'', processed_message)]))
      else if processed_message = PNone \<and> processed_headers = PNone then Inr None
      else if processed_message = PNone \<or> processed_headers = PNone then
        Inl (err_msg_none processed_message processed_headers)
      else Inl err_msg_format)"

text \<open>The body of the \<open>try\<close> statement, lines 86 to 108, for one message.\<close>

definition try_block ::
  "pylib \<Rightarrow> event_handler \<Rightarrow> bool \<Rightarrow> bool \<Rightarrow> event \<Rightarrow> message \<Rightarrow> string + pyval option" where
  "try_block lib event_handler use_async as_json event message =
     (case decode_payload lib as_json message of
        Inl e \<Rightarrow> Inl e
      | Inr payload' \<Rightarrow>
         (case call_event_handler event_handler use_async event message payload' of
            Raises e \<Rightarrow> Inl e
          | Returns processed_message processed_headers \<Rightarrow>
             check_result processed_message processed_headers))"

record processed_events =
  messages :: "pyval list"
  failed_messages :: "pyval list"

text \<open>The entry appended by the \<open>except\<close> clause, lines 110 to 114.\<close>

definition failure_entry :: "message \<Rightarrow> string \<Rightarrow> pyval" where
  "failure_entry message e =
     PDict [(PStr ''headers'', py_dict (headers message)),
            (PStr ''payload'', PStr (payload message)),
            (PStr ''error'', PStr e)]"

text \<open>One turn of the \<open>for\<close> loop, lines 85 to 114.\<close>

definition loop_body ::
  "pylib \<Rightarrow> event_handler \<Rightarrow> bool \<Rightarrow> bool \<Rightarrow> event \<Rightarrow> processed_events \<Rightarrow> message
     \<Rightarrow> processed_events" where
  "loop_body lib event_handler use_async as_json event processed message =
     (case try_block lib event_handler use_async as_json event message of
        Inr (Some entry) \<Rightarrow> processed\<lparr>messages := messages processed @ [entry]\<rparr>
      | Inr None \<Rightarrow> processed
      | Inl e \<Rightarrow>
         processed\<lparr>failed_messages := failed_messages processed @ [failure_entry message e]\<rparr>)"

text \<open>Lines 81 to 114: the two empty lists and the loop over \<open>event["messages"]\<close>.\<close>

definition process_messages ::
  "pylib \<Rightarrow> event_handler \<Rightarrow> bool \<Rightarrow> bool \<Rightarrow> event \<Rightarrow> message list \<Rightarrow> processed_events" where
  "process_messages lib event_handler use_async as_json event batch =
     foldl (loop_body lib event_handler use_async as_json event)
       \<lparr>messages = [], failed_messages = []\<rparr> batch"

definition events_object :: "processed_events \<Rightarrow> pyval" where
  "events_object processed =
     PDict [(PStr ''messages'', PList (messages processed)),
            (PStr ''failed_messages'', PList (failed_messages processed))]"

datatype error = KeyError string

text \<open>
  What \<open>handler\<close> returns: the \<open>bytes\<close> of the JSON text of a document, or a \<open>str\<close>.
\<close>

datatype return_value = ReturnBytes json | ReturnStr string

definition serialization_failure :: "string \<Rightarrow> string" where
  "serialization_failure e =
     ''Returned message types from user function are not able to be converted into JSON: '' @ e"

definition handler ::
  "pylib \<Rightarrow> event_handler \<Rightarrow> bool \<Rightarrow> bool \<Rightarrow> event \<Rightarrow> error + return_value" where
  "handler lib event_handler use_async as_json event =
     (case ev_messages event of
        None \<Rightarrow> Inl (KeyError ''messages'')
      | Some batch \<Rightarrow>
         (case json_dumps
                 (events_object (process_messages lib event_handler use_async as_json event batch)) of
            Inr document \<Rightarrow> Inr (ReturnBytes document)
          | Inl e \<Rightarrow> Inr (ReturnStr (serialization_failure e))))"

definition create_function ::
  "pylib \<Rightarrow> event \<Rightarrow> event_handler \<Rightarrow> bool \<Rightarrow> bool \<Rightarrow> error + return_value" where
  "create_function lib event event_handler use_async as_json =
     handler lib event_handler use_async as_json event"

section \<open>Notions used to state the properties\<close>

text \<open>
  What one message adds to each of the two output lists, read off \<open>try_block\<close>.
\<close>

definition kept_of ::
  "pylib \<Rightarrow> event_handler \<Rightarrow> bool \<Rightarrow> bool \<Rightarrow> event \<Rightarrow> message \<Rightarrow> pyval list" where
  "kept_of lib event_handler use_async as_json event message =
     (case try_block lib event_handler use_async as_json event message of
        Inr (Some entry) \<Rightarrow> [entry]
      | Inr None \<Rightarrow> []
      | Inl e \<Rightarrow> [])"

definition failed_of ::
  "pylib \<Rightarrow> event_handler \<Rightarrow> bool \<Rightarrow> bool \<Rightarrow> event \<Rightarrow> message \<Rightarrow> pyval list" where
  "failed_of lib event_handler use_async as_json event message =
     (case try_block lib event_handler use_async as_json event message of
        Inr r \<Rightarrow> []
      | Inl e \<Rightarrow> [failure_entry message e])"

text \<open>
  The user's function was reached for the message and returned \<open>(None, None)\<close>.
\<close>

definition returned_none_none ::
  "pylib \<Rightarrow> event_handler \<Rightarrow> bool \<Rightarrow> bool \<Rightarrow> event \<Rightarrow> message \<Rightarrow> bool" where
  "returned_none_none lib event_handler use_async as_json event message =
     (case decode_payload lib as_json message of
        Inl e \<Rightarrow> False
      | Inr payload' \<Rightarrow>
         call_event_handler event_handler use_async event message payload' = Returns PNone PNone)"

text \<open>
  The user's function was reached for the message and returned \<open>bytes\<close> and a \<open>dict\<close>:
  the bytes it returned.
\<close>

definition returned_bytes ::
  "pylib \<Rightarrow> event_handler \<Rightarrow> bool \<Rightarrow> bool \<Rightarrow> event \<Rightarrow> message \<Rightarrow> byte list option" where
  "returned_bytes lib event_handler use_async as_json event message =
     (case decode_payload lib as_json message of
        Inl e \<Rightarrow> None
      | Inr payload' \<Rightarrow>
         (case call_event_handler event_handler use_async event message payload' of
            Returns (PBytes b) (PDict kvs) \<Rightarrow> Some b
          | _ \<Rightarrow> None))"

text \<open>
  Base64 text as RFC 4648 has it: quads of characters of the alphabet, the last quad
  ending in at most two pad characters.
\<close>

definition valid_base64_text :: "string \<Rightarrow> bool" where
  "valid_base64_text s \<longleftrightarrow>
     length s mod 4 = 0
     \<and> set (takeWhile (\<lambda>c. c \<noteq> BASE64_PAD) s) \<subseteq> set table_b2a_base64
     \<and> dropWhile (\<lambda>c. c \<noteq> BASE64_PAD) s \<in> {[], [BASE64_PAD], [BASE64_PAD, BASE64_PAD]}"

text \<open>The base64 text in the \<open>payload\<close> field of an entry of the envelope, decoded.\<close>

definition entry_payload_decoded :: "json \<Rightarrow> string + byte list" where
  "entry_payload_decoded entry =
     (case json_get ''payload'' entry of
        Some (JString s) \<Rightarrow> b64decode (bytes_utf8 s)
      | _ \<Rightarrow> Inl ''no payload'')"

section \<open>Sample inputs\<close>

text \<open>
  Concrete inputs on which the properties below are evaluated. \<open>sample_lib\<close> stands for
  the two library functions and agrees with Python on the texts used here: ASCII bytes
  decode to themselves, \<open>json.loads("{}")\<close> is the empty dict, and a text that does not
  begin a JSON value is rejected at its first character. \<open>sample_handler\<close> filters the
  payload \<open>drop\<close>, raises on \<open>boom\<close>, returns a half-empty pair on \<open>half\<close> and echoes
  every other payload with the headers of the message.
\<close>

definition sample_lib :: pylib where
  "sample_lib =
     \<lparr>str_utf8 = (\<lambda>b. Inr (map (\<lambda>c. char_of (unat c)) b)),
      json_loads = (\<lambda>s. if s = ''{}'' then Inr (PDict [])
                         else Inl ''Expecting value: line 1 column 1 (char 0)'')\<rparr>"

definition sample_handler :: event_handler where
  "sample_handler p h i =
     (if p = PBytes (bytes_utf8 ''drop'') then Returns PNone PNone
      else if p = PBytes (bytes_utf8 ''boom'') then Raises ''boom''
      else if p = PBytes (bytes_utf8 ''half'') then Returns p PNone
      else Returns p (py_dict h))"


text \<open>A handler whose headers hold a set, which the JSON encoder rejects.\<close>

definition set_handler :: event_handler where
  "set_handler p h i = Returns p (PDict [(PStr ''seen'', PObj ''set'')])"

definition msg_hi :: message where
  "msg_hi = \<lparr>headers = [(''k'', ''v'')], payload = ''aGk=''\<rparr>"

definition msg_drop :: message where
  "msg_drop = \<lparr>headers = [], payload = ''ZHJvcA==''\<rparr>"

definition msg_boom :: message where
  "msg_boom = \<lparr>headers = [], payload = ''Ym9vbQ==''\<rparr>"

definition msg_half :: message where
  "msg_half = \<lparr>headers = [], payload = ''aGFsZg==''\<rparr>"

definition msg_bad :: message where
  "msg_bad = \<lparr>headers = [], payload = ''a''\<rparr>"

definition msg_junk :: message where
  "msg_junk = \<lparr>headers = [], payload = ''*aGk=''\<rparr>"


definition sample_batch :: "message list" where
  "sample_batch = [msg_boom, msg_hi, msg_drop, msg_half, msg_bad]"

definition sample_event :: event where
  "sample_event = \<lparr>ev_messages = Some sample_batch, ev_inputs = Some []\<rparr>"

definition event_without_inputs :: event where
  "event_without_inputs = \<lparr>ev_messages = Some [msg_hi, msg_bad], ev_inputs = None\<rparr>"

section \<open>The base64 round trip\<close>

lemma and_3_take_bit: "(x::byte) AND 3 = take_bit 2 x"
  using take_bit_eq_mask [of 2 x] by (simp add: mask_eq_exp_minus_1)

lemma and_15_take_bit: "(x::byte) AND 15 = take_bit 4 x"
  using take_bit_eq_mask [of 4 x] by (simp add: mask_eq_exp_minus_1)

lemma and_63_take_bit: "(x::byte) AND 63 = take_bit 6 x"
  using take_bit_eq_mask [of 6 x] by (simp add: mask_eq_exp_minus_1)

lemma Suc2_diff: "2 \<le> n \<Longrightarrow> Suc (Suc (n - 2)) = n"
  by simp

lemma Suc4_diff: "4 \<le> n \<Longrightarrow> Suc (Suc (Suc (Suc (n - 4)))) = n"
  by simp

lemma Suc6_diff: "6 \<le> n \<Longrightarrow> Suc (Suc (Suc (Suc (Suc (Suc (n - 6)))))) = n"
  by simp

text \<open>The three bytes come back from the four sextets.\<close>

lemma first_byte:
  "push_bit 2 (drop_bit 2 (a::byte)) OR drop_bit 4 (push_bit 4 (a AND 3) OR drop_bit 4 b) = a"
  unfolding and_3_take_bit
  apply (rule bit_word_eqI)
  subgoal for n
    by (cases "2 \<le> n") (auto simp: bit_simps Suc2_diff)
  done

lemma second_byte:
  "push_bit 4 ((push_bit 4 (a AND 3) OR drop_bit 4 b) AND 15)
     OR drop_bit 2 (push_bit 2 (b AND 15) OR drop_bit 6 c) = (b::byte)"
  unfolding and_3_take_bit and_15_take_bit
  apply (rule bit_word_eqI)
  subgoal for n
    by (cases "4 \<le> n") (auto simp: bit_simps Suc4_diff)
  done

lemma third_byte:
  "push_bit 6 ((push_bit 2 (b AND 15) OR drop_bit 6 c) AND 3) OR (c AND 63) = (c::byte)"
  unfolding and_3_take_bit and_15_take_bit and_63_take_bit
  apply (rule bit_word_eqI)
  subgoal for n
    by (cases "6 \<le> n") (auto simp: bit_simps Suc6_diff)
  done

lemma first_byte_padded:
  "push_bit 2 (drop_bit 2 (a::byte)) OR drop_bit 4 (push_bit 4 (a AND 3)) = a"
  using first_byte [of a 0] by simp

lemma second_byte_padded:
  "push_bit 4 ((push_bit 4 (a AND 3) OR drop_bit 4 b) AND 15) OR drop_bit 2 (push_bit 2 (b AND 15))
     = (b::byte)"
  using second_byte [of a b 0] by simp

lemma sextet_iff: "(x::byte) < 64 \<longleftrightarrow> take_bit 6 x = x"
  using mask_eq_iff_w2p [of 6 x] by (simp add: word_size take_bit_eq_mask)

lemma sextet1: "drop_bit 2 (a::byte) < 64"
  unfolding sextet_iff by (rule bit_word_eqI) (auto simp: bit_simps dest: bit_imp_le_length)

lemma sextet2: "push_bit 4 ((a::byte) AND 3) OR drop_bit 4 b < 64"
  unfolding sextet_iff and_3_take_bit
  by (rule bit_word_eqI) (auto simp: bit_simps dest: bit_imp_le_length)

lemma sextet3: "push_bit 2 ((b::byte) AND 15) OR drop_bit 6 c < 64"
  unfolding sextet_iff and_15_take_bit
  by (rule bit_word_eqI) (auto simp: bit_simps dest: bit_imp_le_length)

lemma sextet4: "(c::byte) AND 63 < 64"
  unfolding sextet_iff and_63_take_bit by (rule bit_word_eqI) (auto simp: bit_simps)

lemma sextet2_padded: "push_bit 4 ((a::byte) AND 3) < 64"
  using sextet2 [of a 0] by simp

lemma sextet3_padded: "push_bit 2 ((b::byte) AND 15) < 64"
  using sextet3 [of b 0] by simp

lemma table_inverse:
  "list_all (\<lambda>n. table_a2b_base64 (of_char (table_b2a_base64 ! n)) = Some (of_nat n)) [0..<64]"
  by code_simp

lemma pad_not_in_table: "table_a2b_base64 (of_char BASE64_PAD) = None"
  by code_simp

lemma a2b_b2a_char:
  assumes "v < 64"
  shows "table_a2b_base64 (of_char (b2a_char v)) = Some v"
proof -
  from assms have "unat v < 64"
    by (simp add: word_less_nat_alt)
  then have "unat v \<in> set [0..<64]"
    by simp
  with table_inverse
  have "table_a2b_base64 (of_char (table_b2a_base64 ! unat v)) = Some (of_nat (unat v))"
    unfolding list_all_iff by blast
  then show ?thesis
    by (simp add: b2a_char_def)
qed

lemma b2a_char_not_pad:
  assumes "v < 64"
  shows "(of_char (b2a_char v) :: byte) \<noteq> of_char BASE64_PAD"
  using a2b_b2a_char [OF assms] pad_not_in_table by auto

lemma loop_at_0:
  "v < 64 \<Longrightarrow>
     a2b_loop 0 leftchar pads bin (of_char (b2a_char v) # rest) = a2b_loop 1 v 0 bin rest"
  using a2b_b2a_char [of v] b2a_char_not_pad [of v] by simp

lemma loop_at_1:
  "v < 64 \<Longrightarrow>
     a2b_loop 1 leftchar pads bin (of_char (b2a_char v) # rest) =
       a2b_loop 2 (v AND 15) 0 (bin @ [push_bit 2 leftchar OR drop_bit 4 v]) rest"
  using a2b_b2a_char [of v] b2a_char_not_pad [of v] by simp

lemma loop_at_2:
  "v < 64 \<Longrightarrow>
     a2b_loop 2 leftchar pads bin (of_char (b2a_char v) # rest) =
       a2b_loop 3 (v AND 3) 0 (bin @ [push_bit 4 leftchar OR drop_bit 2 v]) rest"
  using a2b_b2a_char [of v] b2a_char_not_pad [of v] by simp

lemma loop_at_3:
  "v < 64 \<Longrightarrow>
     a2b_loop 3 leftchar pads bin (of_char (b2a_char v) # rest) =
       a2b_loop 0 0 0 (bin @ [push_bit 6 leftchar OR v]) rest"
  using a2b_b2a_char [of v] b2a_char_not_pad [of v] by simp

lemma loop_two_pads:
  "a2b_loop 2 leftchar 0 bin (of_char BASE64_PAD # of_char BASE64_PAD # rest) = Inr bin"
  by simp

lemma loop_one_pad:
  "a2b_loop 3 leftchar 0 bin (of_char BASE64_PAD # rest) = Inr bin"
  by simp

lemma a2b_loop_b2a_base64:
  "a2b_loop 0 leftchar pads bin (map of_char (b2a_base64 bs)) = Inr (bin @ bs)"
proof (induction bs arbitrary: leftchar pads bin rule: b2a_base64.induct)
  case 1
  show ?case by simp
next
  case (2 a)
  show ?case
    by (simp only: b2a_base64.simps list.map loop_at_0 [OF sextet1]
        loop_at_1 [OF sextet2_padded] loop_two_pads first_byte_padded)
next
  case (3 a b)
  show ?case
    by (simp only: b2a_base64.simps list.map loop_at_0 [OF sextet1] loop_at_1 [OF sextet2]
        loop_at_2 [OF sextet3_padded] loop_one_pad first_byte second_byte_padded
        append_assoc append_Cons append_Nil)
next
  case (4 a b c rest)
  show ?case
    by (simp only: b2a_base64.simps list.map map_append append_Cons append_Nil
        loop_at_0 [OF sextet1] loop_at_1 [OF sextet2] loop_at_2 [OF sextet3]
        loop_at_3 [OF sextet4] first_byte second_byte third_byte "4.IH" append_assoc)
qed

lemma b64decode_b64encode: "b64decode (bytes_utf8 (b64encode bs)) = Inr bs"
  using a2b_loop_b2a_base64 [of 0 0 "[]" bs]
  by (simp add: b64decode_def a2b_base64_def b64encode_def bytes_utf8_def)

lemma a2b_loop_error_nonempty:
  "a2b_loop quad_pos leftchar pads bin data = Inl e \<Longrightarrow> e \<noteq> []"
  by (induction quad_pos leftchar pads bin data rule: a2b_loop.induct)
     (auto split: if_splits option.splits)

lemma b64decode_error_nonempty: "b64decode data = Inl e \<Longrightarrow> e \<noteq> []"
  by (auto simp: b64decode_def a2b_base64_def dest: a2b_loop_error_nonempty)

section \<open>The loop over the messages\<close>

lemma loop_body_eq:
  "loop_body lib eh ua aj ev pe m =
     \<lparr>messages = messages pe @ kept_of lib eh ua aj ev m,
      failed_messages = failed_messages pe @ failed_of lib eh ua aj ev m\<rparr>"
  by (simp add: loop_body_def kept_of_def failed_of_def split: sum.splits option.splits)

lemma foldl_loop_body:
  "foldl (loop_body lib eh ua aj ev) pe batch =
     \<lparr>messages = messages pe @ concat (map (kept_of lib eh ua aj ev) batch),
      failed_messages = failed_messages pe @ concat (map (failed_of lib eh ua aj ev) batch)\<rparr>"
proof (induction batch arbitrary: pe)
  case Nil
  show ?case by simp
next
  case (Cons m batch)
  show ?case by (simp add: Cons.IH) (simp add: loop_body_eq)
qed

lemma messages_process_messages:
  "messages (process_messages lib eh ua aj ev batch) = concat (map (kept_of lib eh ua aj ev) batch)"
  by (simp add: process_messages_def foldl_loop_body)

lemma failed_process_messages:
  "failed_messages (process_messages lib eh ua aj ev batch) =
     concat (map (failed_of lib eh ua aj ev) batch)"
  by (simp add: process_messages_def foldl_loop_body)

lemma process_messages_single:
  "process_messages lib eh ua aj ev [m] =
     \<lparr>messages = kept_of lib eh ua aj ev m, failed_messages = failed_of lib eh ua aj ev m\<rparr>"
  by (simp add: process_messages_def loop_body_eq)

lemma try_block_none_iff:
  "try_block lib eh ua aj ev m = Inr None \<longleftrightarrow> returned_none_none lib eh ua aj ev m"
  by (auto simp: try_block_def returned_none_none_def check_result_def
      split: sum.splits call_outcome.splits if_splits)

lemma one_outcome:
  "length (kept_of lib eh ua aj ev m) + length (failed_of lib eh ua aj ev m)
     + (if returned_none_none lib eh ua aj ev m then 1 else 0) = 1"
  unfolding try_block_none_iff [symmetric]
  by (simp add: kept_of_def failed_of_def split: sum.splits option.splits)

lemma count_outcomes:
  "length batch =
     length (concat (map (kept_of lib eh ua aj ev) batch))
     + length (concat (map (failed_of lib eh ua aj ev) batch))
     + length (filter (returned_none_none lib eh ua aj ev) batch)"
proof (induction batch)
  case Nil
  show ?case by simp
next
  case (Cons m batch)
  from one_outcome [of lib eh ua aj ev m] Cons.IH show ?case
    by (simp split: if_splits)
qed

lemma py_dict_inj: "py_dict h = py_dict h' \<Longrightarrow> h = h'"
proof -
  have "inj (\<lambda>(k :: string, v :: string). (PStr k, PStr v))"
    by (auto simp: inj_on_def)
  then show "py_dict h = py_dict h' \<Longrightarrow> h = h'"
    by (simp add: py_dict_def)
qed

lemma failure_entry_inj: "failure_entry m e = failure_entry m' e' \<Longrightarrow> m = m' \<and> e = e'"
  by (auto simp: failure_entry_def dest: py_dict_inj)

lemma dropped_not_failed:
  assumes "returned_none_none lib eh ua aj ev m"
  shows "failure_entry m e \<notin> set (concat (map (failed_of lib eh ua aj ev) batch))"
proof
  assume "failure_entry m e \<in> set (concat (map (failed_of lib eh ua aj ev) batch))"
  then obtain m' where "failure_entry m e \<in> set (failed_of lib eh ua aj ev m')"
    by auto
  then obtain e' where
    "try_block lib eh ua aj ev m' = Inl e'" "failure_entry m e = failure_entry m' e'"
    by (cases "try_block lib eh ua aj ev m'") (auto simp: failed_of_def)
  then have "try_block lib eh ua aj ev m = Inl e'"
    by (auto dest: failure_entry_inj)
  with assms show False
    by (simp add: try_block_none_iff [symmetric])
qed

lemma try_block_failed:
  assumes "try_block lib eh ua aj ev m = Inl e"
  shows "loop_body lib eh ua aj ev pe m
           = pe\<lparr>failed_messages := failed_messages pe @ [failure_entry m e]\<rparr>"
    and "process_messages lib eh ua aj ev [m]
           = \<lparr>messages = [], failed_messages = [failure_entry m e]\<rparr>"
  using assms by (simp_all add: loop_body_def process_messages_def)


section \<open>Encoding the result\<close>

lemma iterencode_dict_str:
  "iterencode_dict (map (\<lambda>(k, v). (PStr k, PStr v)) d) = Inr (map (\<lambda>(k, v). (k, JString v)) d)"
  by (induction d) auto

lemma iterencode_py_dict:
  "iterencode (py_dict d) = Inr (JObject (map (\<lambda>(k, v). (k, JString v)) d))"
  by (simp add: py_dict_def iterencode_dict_str)

lemma iterencode_failure_entry:
  "iterencode (failure_entry m e) =
     Inr (JObject [(''headers'', JObject (map (\<lambda>(k, v). (k, JString v)) (headers m))),
                   (''payload'', JString (payload m)),
                   (''error'', JString e)])"
  by (simp add: failure_entry_def iterencode_py_dict)

lemma iterencode_list_append:
  "iterencode_list (xs @ ys) =
     (case iterencode_list xs of
        Inl e \<Rightarrow> Inl e
      | Inr js \<Rightarrow> (case iterencode_list ys of Inl e \<Rightarrow> Inl e | Inr ks \<Rightarrow> Inr (js @ ks)))"
  by (induction xs) (auto split: sum.splits)

lemma iterencode_list_Inr_D:
  "iterencode_list xs = Inr js \<Longrightarrow> list_all2 (\<lambda>x j. iterencode x = Inr j) xs js"
  by (induction xs arbitrary: js) (auto split: sum.splits)

lemma iterencode_list_length: "iterencode_list xs = Inr js \<Longrightarrow> length js = length xs"
  using list_all2_lengthD [OF iterencode_list_Inr_D, of xs js] by simp

lemma iterencode_list_Inl_iff:
  "isl (iterencode_list xs) \<longleftrightarrow> (\<exists>x \<in> set xs. isl (iterencode x))"
  by (induction xs) (auto split: sum.splits)

lemma iterencode_list_failed:
  "iterencode_list (concat (map (failed_of lib eh ua aj ev) batch))
     = Inr (concat (map (\<lambda>m. case try_block lib eh ua aj ev m of
          Inl e \<Rightarrow> [JObject [(''headers'', JObject (map (\<lambda>(k, v). (k, JString v)) (headers m))),
                   (''payload'', JString (payload m)),
                   (''error'', JString e)]]
        | Inr r \<Rightarrow> []) batch))"
proof (induction batch)
  case Nil
  show ?case by simp
next
  case (Cons m batch)
  have "iterencode_list (failed_of lib eh ua aj ev m)
      = Inr (case try_block lib eh ua aj ev m of
          Inl e \<Rightarrow> [JObject [(''headers'', JObject (map (\<lambda>(k, v). (k, JString v)) (headers m))),
                   (''payload'', JString (payload m)),
                   (''error'', JString e)]]
        | Inr r \<Rightarrow> [])"
    by (simp add: failed_of_def iterencode_failure_entry split: sum.splits)
  then show ?case
    by (simp add: iterencode_list_append Cons.IH)
qed

lemma failed_encodes:
  "\<exists>fs. iterencode_list (failed_messages (process_messages lib eh ua aj ev batch)) = Inr fs"
  by (simp add: failed_process_messages iterencode_list_failed)

lemma json_dumps_events_object:
  "json_dumps (events_object pe) =
     (case iterencode_list (messages pe) of
        Inl e \<Rightarrow> Inl e
      | Inr ms \<Rightarrow>
         (case iterencode_list (failed_messages pe) of
            Inl e \<Rightarrow> Inl e
          | Inr fs \<Rightarrow> Inr (JObject [(''messages'', JArray ms), (''failed_messages'', JArray fs)])))"
  by (simp add: json_dumps_def events_object_def split: sum.splits)

lemma try_block_without_inputs:
  assumes "ev_inputs event = None"
  shows "try_block lib eh ua aj event m
           = Inl (case decode_payload lib aj m of Inl e \<Rightarrow> e | Inr p \<Rightarrow> repr_str ''inputs'')"
  using assms by (simp add: try_block_def call_event_handler_def split: sum.splits)

lemma isinstance_bytes_iff: "isinstance_bytes a \<longleftrightarrow> (\<exists>b. a = PBytes b)"
  by (cases a) simp_all

lemma isinstance_dict_iff: "isinstance_dict a \<longleftrightarrow> (\<exists>kvs. a = PDict kvs)"
  by (cases a) simp_all

lemma entry_payload_decoded_success:
  "entry_payload_decoded (JObject [(''headers'', h), (''payload'', JString (b64encode b))]) = Inr b"
  by (simp add: entry_payload_decoded_def b64decode_b64encode)

lemma kept_of_cases:
  "(returned_bytes lib eh ua aj ev m = None \<and> kept_of lib eh ua aj ev m = [])
   \<or> (\<exists>b kvs. returned_bytes lib eh ua aj ev m = Some b
         \<and> kept_of lib eh ua aj ev m = [PDict [(PStr ''headers'', PDict kvs), (PStr ''payload'', PBytes b)]])"
proof (cases "decode_payload lib aj m")
  case (Inl e)
  then show ?thesis
    by (simp add: returned_bytes_def kept_of_def try_block_def)
next
  case (Inr p)
  show ?thesis
  proof (cases "call_event_handler eh ua ev m p")
    case (Raises e)
    with Inr show ?thesis
      by (simp add: returned_bytes_def kept_of_def try_block_def)
  next
    case (Returns a b)
    show ?thesis
    proof (cases "isinstance_bytes a \<and> isinstance_dict b")
      case True
      then obtain bs kvs where "a = PBytes bs" "b = PDict kvs"
        by (auto simp: isinstance_bytes_iff isinstance_dict_iff)
      with Inr Returns show ?thesis
        by (simp add: returned_bytes_def kept_of_def try_block_def check_result_def)
    next
      case False
      then have "returned_bytes lib eh ua aj ev m = None"
        using Inr Returns
        by (cases a; cases b) (simp_all add: returned_bytes_def)
      moreover have "kept_of lib eh ua aj ev m = []"
        using False Inr Returns
        by (auto simp: kept_of_def try_block_def check_result_def)
      ultimately show ?thesis by simp
    qed
  qed
qed

lemma kept_of_encoded:
  assumes "iterencode_list (kept_of lib eh ua aj ev m) = Inr js"
  shows "map entry_payload_decoded js
           = map Inr (case returned_bytes lib eh ua aj ev m of None \<Rightarrow> [] | Some b \<Rightarrow> [b])"
  using kept_of_cases [of lib eh ua aj ev m] assms
  by (auto simp: entry_payload_decoded_success split: sum.splits)

lemma kept_batch_encoded:
  "iterencode_list (concat (map (kept_of lib eh ua aj ev) batch)) = Inr js \<Longrightarrow>
     map entry_payload_decoded js = map Inr (List.map_filter (returned_bytes lib eh ua aj ev) batch)"
proof (induction batch arbitrary: js)
  case Nil
  then show ?case by (simp add: List.map_filter_simps)
next
  case (Cons m batch)
  from Cons.prems obtain j1 j2 where
    j1: "iterencode_list (kept_of lib eh ua aj ev m) = Inr j1" and
    j2: "iterencode_list (concat (map (kept_of lib eh ua aj ev) batch)) = Inr j2" and
    js: "js = j1 @ j2"
    by (auto simp: iterencode_list_append split: sum.splits)
  from kept_of_encoded [OF j1] Cons.IH [OF j2] js show ?case
    by (simp add: List.map_filter_simps split: option.splits)
qed

section \<open>The properties\<close>

text \<open>
  C1. For every batch and every handler, the number of messages is the number of success
  entries plus the number of failure entries plus the number of messages for which the
  handler returned \<open>(None, None)\<close>. Each output list is made of what the messages add
  one after the other; every message adds exactly one thing to exactly one of the three
  outcomes; and a message that was answered \<open>(None, None)\<close> adds no entry to either list,
  so that no failure entry made from it is in the failure sequence.
\<close>

theorem C1_each_message_in_one_outcome:
  "length batch =
     length (messages (process_messages lib eh ua aj ev batch))
     + length (failed_messages (process_messages lib eh ua aj ev batch))
     + length (filter (returned_none_none lib eh ua aj ev) batch)
   \<and> messages (process_messages lib eh ua aj ev batch) = concat (map (kept_of lib eh ua aj ev) batch)
   \<and> failed_messages (process_messages lib eh ua aj ev batch) = concat (map (failed_of lib eh ua aj ev) batch)
   \<and> (\<forall>m \<in> set batch.
        length (kept_of lib eh ua aj ev m) + length (failed_of lib eh ua aj ev m)
          + (if returned_none_none lib eh ua aj ev m then 1 else 0) = 1)
   \<and> (\<forall>m \<in> set batch. returned_none_none lib eh ua aj ev m \<longrightarrow>
        kept_of lib eh ua aj ev m = [] \<and> failed_of lib eh ua aj ev m = []
        \<and> (\<forall>e. failure_entry m e \<notin> set (failed_messages (process_messages lib eh ua aj ev batch))))"
  using count_outcomes [of batch lib eh ua aj ev] one_outcome [of lib eh ua aj ev]
    dropped_not_failed [of lib eh ua aj ev _ _ batch]
  by (simp add: messages_process_messages failed_process_messages kept_of_def failed_of_def
      try_block_none_iff [symmetric])

text \<open>C1 on the sample batch, whose third message is filtered out.\<close>

theorem C1_witness:
  "msg_drop \<in> set sample_batch
   \<and> returned_none_none sample_lib sample_handler False False sample_event msg_drop
   \<and> length sample_batch =
       length (messages (process_messages sample_lib sample_handler False False sample_event sample_batch))
       + length (failed_messages (process_messages sample_lib sample_handler False False sample_event sample_batch))
       + 1
   \<and> kept_of sample_lib sample_handler False False sample_event msg_drop = []
   \<and> failed_of sample_lib sample_handler False False sample_event msg_drop = []
   \<and> failure_entry msg_drop ''boom''
       \<notin> set (failed_messages (process_messages sample_lib sample_handler False False sample_event sample_batch))"
proof -
  have a: "msg_drop \<in> set sample_batch"
    by (simp add: sample_batch_def)
  have b: "returned_none_none sample_lib sample_handler False False sample_event msg_drop"
    by code_simp
  have c: "length (filter (returned_none_none sample_lib sample_handler False False sample_event) sample_batch) = 1"
    by code_simp
  note C1 = C1_each_message_in_one_outcome
    [of sample_batch sample_lib sample_handler False False sample_event]
  from C1 c have d: "length sample_batch =
       length (messages (process_messages sample_lib sample_handler False False sample_event sample_batch))
       + length (failed_messages (process_messages sample_lib sample_handler False False sample_event sample_batch))
       + 1"
    by (simp only:)
  from C1 have "\<forall>m \<in> set sample_batch.
      returned_none_none sample_lib sample_handler False False sample_event m \<longrightarrow>
        kept_of sample_lib sample_handler False False sample_event m = []
        \<and> failed_of sample_lib sample_handler False False sample_event m = []
        \<and> (\<forall>e. failure_entry m e \<notin> set (failed_messages
              (process_messages sample_lib sample_handler False False sample_event sample_batch)))"
    by blast
  with a b have "kept_of sample_lib sample_handler False False sample_event msg_drop = []
        \<and> failed_of sample_lib sample_handler False False sample_event msg_drop = []
        \<and> failure_entry msg_drop ''boom'' \<notin> set (failed_messages
              (process_messages sample_lib sample_handler False False sample_event sample_batch))"
    by blast
  with a b d show ?thesis by blast
qed





text \<open>
  C4. The success sequence of a batch is, message by message and in the order of the batch,
  what each message alone adds to the success sequence, and the failure sequence is the
  same for the failures; neither sequence depends on the other. Hence the entries of a
  batch \<open>xs @ ys\<close> are those of \<open>xs\<close> followed by those of \<open>ys\<close>, in each sequence.
\<close>

theorem C4_order_preserved:
  "messages (process_messages lib eh ua aj ev batch)
     = concat (map (\<lambda>m. messages (process_messages lib eh ua aj ev [m])) batch)
   \<and> failed_messages (process_messages lib eh ua aj ev batch)
     = concat (map (\<lambda>m. failed_messages (process_messages lib eh ua aj ev [m])) batch)
   \<and> messages (process_messages lib eh ua aj ev (xs @ ys))
     = messages (process_messages lib eh ua aj ev xs) @ messages (process_messages lib eh ua aj ev ys)
   \<and> failed_messages (process_messages lib eh ua aj ev (xs @ ys))
     = failed_messages (process_messages lib eh ua aj ev xs)
       @ failed_messages (process_messages lib eh ua aj ev ys)"
  by (simp add: messages_process_messages failed_process_messages process_messages_single)

text \<open>
  C5, as amended. For every message whose payload the base64 decoder rejects (after
  characters outside the alphabet are skipped, the data characters do not fill whole
  quads), the error text is not empty, a batch of that one message gives no success entry
  and exactly one failure entry holding the headers, the payload string unchanged and the
  error text, and in any batch the loop appends that entry for the message.
\<close>

theorem C5_rejected_payload_is_failure:
  assumes "b64decode (bytes_utf8 (payload m)) = Inl e"
  shows "e \<noteq> []
    \<and> process_messages lib eh ua aj ev [m]
        = \<lparr>messages = [],
           failed_messages = [PDict [(PStr ''headers'', py_dict (headers m)),
                                     (PStr ''payload'', PStr (payload m)),
                                     (PStr ''error'', PStr e)]]\<rparr>
    \<and> loop_body lib eh ua aj ev pe m
        = pe\<lparr>failed_messages := failed_messages pe
                @ [PDict [(PStr ''headers'', py_dict (headers m)),
                          (PStr ''payload'', PStr (payload m)),
                          (PStr ''error'', PStr e)]]\<rparr>"
proof -
  have tb: "try_block lib eh ua aj ev m = Inl e"
    using assms by (simp add: try_block_def decode_payload_def)
  from b64decode_error_nonempty [OF assms] try_block_failed [OF tb] show ?thesis
    by (simp add: failure_entry_def)
qed

text \<open>C5, as amended, on the payload \<open>a\<close>, which the decoder rejects.\<close>

theorem C5_witness:
  "b64decode (bytes_utf8 (payload msg_bad))
     = Inl ''Invalid base64-encoded string: number of data characters (1) cannot be 1 more than a multiple of 4''
   \<and> process_messages sample_lib sample_handler False False sample_event [msg_bad]
     = \<lparr>messages = [],
        failed_messages = [PDict [(PStr ''headers'', PDict []),
                                  (PStr ''payload'', PStr ''a''),
                                  (PStr ''error'', PStr ''Invalid base64-encoded string: number of data characters (1) cannot be 1 more than a multiple of 4'')]]\<rparr>"
proof -
  have a: "b64decode (bytes_utf8 (payload msg_bad))
     = Inl ''Invalid base64-encoded string: number of data characters (1) cannot be 1 more than a multiple of 4''"
    by code_simp
  from C5_rejected_payload_is_failure [OF a] a show ?thesis
    by (simp add: msg_bad_def py_dict_def)
qed

text \<open>
  C5 as stated fails: the payload \<open>*aGk=\<close> is not valid base64 text, yet the decoder
  skips the \<open>*\<close> and the message ends as a success with the payload \<open>hi\<close>.
\<close>

theorem C5_counterexample:
  "\<not> valid_base64_text (payload msg_junk)
   \<and> process_messages sample_lib sample_handler False False sample_event [msg_junk]
      = \<lparr>messages = [PDict [(PStr ''headers'', PDict []),
                            (PStr ''payload'', PBytes (bytes_utf8 ''hi''))]],
         failed_messages = []\<rparr>"
proof -
  have "\<not> valid_base64_text (payload msg_junk)"
    by (simp add: valid_base64_text_def msg_junk_def)
  moreover have "process_messages sample_lib sample_handler False False sample_event [msg_junk]
      = \<lparr>messages = [PDict [(PStr ''headers'', PDict []),
                            (PStr ''payload'', PBytes (bytes_utf8 ''hi''))]],
         failed_messages = []\<rparr>"
    by code_simp
  ultimately show ?thesis by simp
qed


text \<open>
  C7. For an event with a \<open>messages\<close> key: when \<open>json.dumps\<close> raises on the collected
  result, the handler returns the string that begins "Returned message types from user
  function are not able to be converted into JSON" followed by the error, and nothing of
  the result; otherwise it returns the bytes of a document with the two keys
  \<open>messages\<close> and \<open>failed_messages\<close>, each an array with one element per entry. The
  string is returned exactly when some success entry cannot be encoded, and a string
  is never equal to bytes.
\<close>

theorem C7_serialization_failure_string:
  assumes "ev_messages event = Some batch"
  shows "(case json_dumps (events_object (process_messages lib eh ua aj event batch)) of
            Inl e \<Rightarrow> handler lib eh ua aj event = Inr (ReturnStr (serialization_failure e))
          | Inr document \<Rightarrow>
              handler lib eh ua aj event = Inr (ReturnBytes document)
              \<and> (\<exists>ms fs. document = JObject [(''messages'', JArray ms), (''failed_messages'', JArray fs)]
                    \<and> length ms = length (messages (process_messages lib eh ua aj event batch))
                    \<and> length fs = length (failed_messages (process_messages lib eh ua aj event batch))))
    \<and> ((\<exists>s. handler lib eh ua aj event = Inr (ReturnStr s))
         \<longleftrightarrow> (\<exists>entry \<in> set (messages (process_messages lib eh ua aj event batch)).
                isl (iterencode entry)))
    \<and> (\<forall>s document. ReturnStr s \<noteq> ReturnBytes document)"
proof -
  let ?pe = "process_messages lib eh ua aj event batch"
  obtain fs where fs: "iterencode_list (failed_messages ?pe) = Inr fs"
    using failed_encodes by blast
  show ?thesis
  proof (cases "iterencode_list (messages ?pe)")
    case (Inl e)
    then have "\<exists>entry \<in> set (messages ?pe). isl (iterencode entry)"
      using iterencode_list_Inl_iff [of "messages ?pe"] by simp
    with Inl assms show ?thesis
      by (simp add: handler_def json_dumps_events_object)
  next
    case (Inr ms)
    then have "\<not> (\<exists>entry \<in> set (messages ?pe). isl (iterencode entry))"
      using iterencode_list_Inl_iff [of "messages ?pe"] by simp
    with Inr fs assms iterencode_list_length [OF Inr] iterencode_list_length [OF fs] show ?thesis
      by (simp add: handler_def json_dumps_events_object)
  qed
qed

text \<open>C7 on a handler whose headers cannot be encoded, and on one whose result can.\<close>

theorem C7_witness:
  "ev_messages sample_event = Some sample_batch
   \<and> json_dumps (events_object (process_messages sample_lib set_handler False False sample_event sample_batch))
       = Inl ''Object of type set is not JSON serializable''
   \<and> handler sample_lib set_handler False False sample_event
       = Inr (ReturnStr ''Returned message types from user function are not able to be converted into JSON: Object of type set is not JSON serializable'')
   \<and> handler sample_lib sample_handler False False \<lparr>ev_messages = Some [msg_hi], ev_inputs = Some []\<rparr>
       = Inr (ReturnBytes (JObject
           [(''messages'', JArray [JObject [(''headers'', JObject [(''k'', JString ''v'')]),
                                            (''payload'', JString ''aGk='')]]),
            (''failed_messages'', JArray [])]))"
proof -
  have a: "ev_messages sample_event = Some sample_batch"
    by (simp add: sample_event_def)
  have b: "json_dumps (events_object (process_messages sample_lib set_handler False False sample_event sample_batch))
       = Inl ''Object of type set is not JSON serializable''"
    by code_simp
  have c: "ev_messages \<lparr>ev_messages = Some [msg_hi], ev_inputs = Some []\<rparr> = Some [msg_hi]"
    by simp
  have d: "json_dumps (events_object (process_messages sample_lib sample_handler False False
              \<lparr>ev_messages = Some [msg_hi], ev_inputs = Some []\<rparr> [msg_hi]))
       = Inr (JObject
           [(''messages'', JArray [JObject [(''headers'', JObject [(''k'', JString ''v'')]),
                                            (''payload'', JString ''aGk='')]]),
            (''failed_messages'', JArray [])])"
    by code_simp
  from C7_serialization_failure_string [OF a, of sample_lib set_handler False False]
       C7_serialization_failure_string [OF c, of sample_lib sample_handler False False]
       a b d
  show ?thesis by (simp add: serialization_failure_def)
qed



text \<open>
  C9. When the handler returns the envelope, its \<open>messages\<close> field is an array whose
  entries, in order, have payload fields that base64-decode to exactly the bytes that the
  user's function returned for the succeeding messages of the batch, in order.
\<close>

theorem C9_payload_round_trip:
  assumes "ev_messages event = Some batch"
    and "handler lib eh ua aj event = Inr (ReturnBytes document)"
  shows "\<exists>entries. json_get ''messages'' document = Some (JArray entries)
          \<and> map entry_payload_decoded entries
              = map Inr (List.map_filter (returned_bytes lib eh ua aj event) batch)"
proof -
  let ?pe = "process_messages lib eh ua aj event batch"
  from assms have "json_dumps (events_object ?pe) = Inr document"
    by (simp add: handler_def split: sum.splits)
  then obtain ms fs where
    ms: "iterencode_list (messages ?pe) = Inr ms" and
    doc: "document = JObject [(''messages'', JArray ms), (''failed_messages'', JArray fs)]"
    by (auto simp: json_dumps_events_object split: sum.splits)
  from ms have "map entry_payload_decoded ms
      = map Inr (List.map_filter (returned_bytes lib eh ua aj event) batch)"
    by (simp add: messages_process_messages kept_batch_encoded)
  with doc show ?thesis by simp
qed

text \<open>C9 on the sample event.\<close>

theorem C9_witness:
  "ev_messages sample_event = Some sample_batch
   \<and> handler sample_lib sample_handler False False sample_event
       = Inr (ReturnBytes (JObject
           [(''messages'', JArray [JObject [(''headers'', JObject [(''k'', JString ''v'')]),
                                            (''payload'', JString ''aGk='')]]),
            (''failed_messages'', JArray
               [JObject [(''headers'', JObject []), (''payload'', JString ''Ym9vbQ==''),
                         (''error'', JString ''boom'')],
                JObject [(''headers'', JObject []), (''payload'', JString ''aGFsZg==''),
                         (''error'', JString (err_msg_none (PBytes (bytes_utf8 ''half'')) PNone))],
                JObject [(''headers'', JObject []), (''payload'', JString ''a''),
                         (''error'', JString ''Invalid base64-encoded string: number of data characters (1) cannot be 1 more than a multiple of 4'')]])]))
   \<and> List.map_filter (returned_bytes sample_lib sample_handler False False sample_event) sample_batch
       = [bytes_utf8 ''hi'']
   \<and> map entry_payload_decoded
        [JObject [(''headers'', JObject [(''k'', JString ''v'')]), (''payload'', JString ''aGk='')]]
       = [Inr (bytes_utf8 ''hi'')]"
proof -
  have a: "ev_messages sample_event = Some sample_batch"
    by (simp add: sample_event_def)
  have b: "handler sample_lib sample_handler False False sample_event
       = Inr (ReturnBytes (JObject
           [(''messages'', JArray [JObject [(''headers'', JObject [(''k'', JString ''v'')]),
                                            (''payload'', JString ''aGk='')]]),
            (''failed_messages'', JArray
               [JObject [(''headers'', JObject []), (''payload'', JString ''Ym9vbQ==''),
                         (''error'', JString ''boom'')],
                JObject [(''headers'', JObject []), (''payload'', JString ''aGFsZg==''),
                         (''error'', JString (err_msg_none (PBytes (bytes_utf8 ''half'')) PNone))],
                JObject [(''headers'', JObject []), (''payload'', JString ''a''),
                         (''error'', JString ''Invalid base64-encoded string: number of data characters (1) cannot be 1 more than a multiple of 4'')]])]))"
    by code_simp
  have c: "List.map_filter (returned_bytes sample_lib sample_handler False False sample_event) sample_batch
       = [bytes_utf8 ''hi'']"
    by code_simp
  from C9_payload_round_trip [OF a b] a b c show ?thesis
    by simp
qed

text \<open>
  C10, as amended. For an event without the \<open>inputs\<close> key, the handler returns the
  envelope; its \<open>messages\<close> array is empty and its \<open>failed_messages\<close> array has one
  entry per message, in order, with the headers and payload of the message, and as error
  the text of \<open>KeyError('inputs')\<close> when the payload decodes, and the decode error when
  it does not.
\<close>

theorem C10_missing_inputs:
  assumes "ev_messages event = Some batch"
    and "ev_inputs event = None"
  shows "handler lib eh ua aj event =
     Inr (ReturnBytes (JObject
       [(''messages'', JArray []),
        (''failed_messages'', JArray (map (\<lambda>m.
            JObject [(''headers'', JObject (map (\<lambda>(k, v). (k, JString v)) (headers m))),
                     (''payload'', JString (payload m)),
                     (''error'', JString (case decode_payload lib aj m of
                                            Inl e \<Rightarrow> e
                                          | Inr p \<Rightarrow> repr_str ''inputs''))]) batch))]))"
proof -
  let ?pe = "process_messages lib eh ua aj event batch"
  have k: "concat (map (kept_of lib eh ua aj event) xs) = []" for xs
    by (induction xs) (simp_all add: kept_of_def try_block_without_inputs [OF assms(2)])
  have f: "concat (map (\<lambda>m. case try_block lib eh ua aj event m of
          Inl e \<Rightarrow> [JObject [(''headers'', JObject (map (\<lambda>(k, v). (k, JString v)) (headers m))),
                   (''payload'', JString (payload m)),
                   (''error'', JString e)]]
        | Inr r \<Rightarrow> []) xs)
      = map (\<lambda>m.
            JObject [(''headers'', JObject (map (\<lambda>(k, v). (k, JString v)) (headers m))),
                     (''payload'', JString (payload m)),
                     (''error'', JString (case decode_payload lib aj m of
                                            Inl e \<Rightarrow> e
                                          | Inr p \<Rightarrow> repr_str ''inputs''))]) xs" for xs
    by (induction xs) (simp_all add: try_block_without_inputs [OF assms(2)])
  have "messages ?pe = []"
    by (simp add: messages_process_messages k)
  moreover have "iterencode_list (failed_messages ?pe) = Inr (map (\<lambda>m.
            JObject [(''headers'', JObject (map (\<lambda>(k, v). (k, JString v)) (headers m))),
                     (''payload'', JString (payload m)),
                     (''error'', JString (case decode_payload lib aj m of
                                            Inl e \<Rightarrow> e
                                          | Inr p \<Rightarrow> repr_str ''inputs''))]) batch)"
    by (simp add: failed_process_messages iterencode_list_failed f)
  ultimately show ?thesis
    using assms(1) by (simp add: handler_def json_dumps_events_object)
qed

text \<open>C10, as amended, on an event without inputs.\<close>

theorem C10_witness:
  "ev_messages event_without_inputs = Some [msg_hi, msg_bad]
   \<and> ev_inputs event_without_inputs = None
   \<and> decode_payload sample_lib False msg_hi = Inr (PBytes (bytes_utf8 ''hi''))
   \<and> handler sample_lib sample_handler False False event_without_inputs =
     Inr (ReturnBytes (JObject
       [(''messages'', JArray []),
        (''failed_messages'', JArray
          [JObject [(''headers'', JObject [(''k'', JString ''v'')]),
                    (''payload'', JString ''aGk=''),
                    (''error'', JString (repr_str ''inputs''))],
           JObject [(''headers'', JObject []),
                    (''payload'', JString ''a''),
                    (''error'', JString ''Invalid base64-encoded string: number of data characters (1) cannot be 1 more than a multiple of 4'')]])]))"
proof -
  have a: "ev_messages event_without_inputs = Some [msg_hi, msg_bad]"
    by (simp add: event_without_inputs_def)
  have b: "ev_inputs event_without_inputs = None"
    by (simp add: event_without_inputs_def)
  have c: "decode_payload sample_lib False msg_hi = Inr (PBytes (bytes_utf8 ''hi''))"
    by code_simp
  have d: "decode_payload sample_lib False msg_bad = Inl ''Invalid base64-encoded string: number of data characters (1) cannot be 1 more than a multiple of 4''"
    by code_simp
  from C10_missing_inputs [OF a b, of sample_lib sample_handler False False] a b c d
  show ?thesis by (simp add: msg_hi_def msg_bad_def)
qed

text \<open>
  C10 as stated fails: without \<open>inputs\<close>, the message with the payload \<open>a\<close> fails at
  the base64 decoder before the lookup, and its error is not the lookup error.
\<close>

theorem C10_counterexample:
  "ev_inputs event_without_inputs = None
   \<and> ev_messages event_without_inputs = Some [msg_hi, msg_bad]
   \<and> failed_messages (process_messages sample_lib sample_handler False False
        event_without_inputs [msg_hi, msg_bad])
      = [failure_entry msg_hi (repr_str ''inputs''),
         failure_entry msg_bad ''Invalid base64-encoded string: number of data characters (1) cannot be 1 more than a multiple of 4'']
   \<and> failure_entry msg_bad ''Invalid base64-encoded string: number of data characters (1) cannot be 1 more than a multiple of 4''
      \<noteq> failure_entry msg_bad (repr_str ''inputs'')"
  by code_simp

end
